theory Spec2Isabelle
  imports Main "HOL-Library.Sublist"
begin

section \<open>The Python path and string functions that \<open>convert\<close> calls\<close>

text \<open>
  Strings are byte strings. The separators \<open>/\<close> and \<open>.\<close> and the letters of
  \<open>.json\<close> are ASCII, so the comparisons below give the same answer on the UTF-8
  encoding of a path as Python gives on its code points.
\<close>

text \<open>\<open>str.rfind(c)\<close>: the index of the last occurrence of \<open>c\<close>, or \<open>-1\<close>.\<close>

definition rfind :: "string \<Rightarrow> char \<Rightarrow> int" where
  "rfind p c =
     (if c \<in> set p
      then int (length p) - 1 - int (length (takeWhile (\<lambda>x. x \<noteq> c) (rev p)))
      else - 1)"

text \<open>
  The loop of \<open>genericpath._splitext\<close> that skips the leading dots of the file name:
  \<^verbatim>\<open>
  while filenameIndex < dotIndex:
      if p[filenameIndex:filenameIndex+1] != extsep:
          return p[:dotIndex], p[dotIndex:]
      filenameIndex += 1
  \<close>
  It answers whether some character between the two indices is not a dot.
\<close>

function has_nondot :: "string \<Rightarrow> nat \<Rightarrow> nat \<Rightarrow> bool" where
  "has_nondot p filenameIndex dotIndex =
     (if filenameIndex < dotIndex
      then (if take 1 (drop filenameIndex p) \<noteq> ''.'' then True
            else has_nondot p (Suc filenameIndex) dotIndex)
      else False)"
  by pat_completeness auto
termination
  by (relation "measure (\<lambda>(p, i, d). d - i)") auto

declare has_nondot.simps [simp del]

text \<open>\<open>os.path.splitext\<close> (posixpath: \<open>sep = '/'\<close>, no \<open>altsep\<close>, \<open>extsep = '.'\<close>).\<close>

definition splitext :: "string \<Rightarrow> string \<times> string" where
  "splitext p =
     (let sepIndex = rfind p (CHR ''/'');
          dotIndex = rfind p (CHR ''.'')
      in if dotIndex > sepIndex \<and> has_nondot p (nat (sepIndex + 1)) (nat dotIndex)
         then (take (nat dotIndex) p, drop (nat dotIndex) p)
         else (p, []))"

text \<open>
  \<open>str.lower\<close> on the ASCII letters: a byte from \<open>A\<close> (65) to \<open>Z\<close> (90) gets
  32 added, which sets bit 5; every other byte is kept.
\<close>

definition lower_char :: "char \<Rightarrow> char" where
  "lower_char c =
     (let n = (of_char c :: nat)
      in if 65 \<le> n \<and> n \<le> 90
         then (case c of Char b0 b1 b2 b3 b4 b5 b6 b7 \<Rightarrow> Char b0 b1 b2 b3 b4 True b6 b7)
         else c)"

definition lower :: "string \<Rightarrow> string" where
  "lower s = map lower_char s"

text \<open>\<open>str.startswith\<close>.\<close>

definition startswith :: "string \<Rightarrow> string \<Rightarrow> bool" where
  "startswith s pre = (take (length pre) s = pre)"

text \<open>\<open>str.rstrip(c)\<close> for a single character.\<close>

definition rstrip :: "char \<Rightarrow> string \<Rightarrow> string" where
  "rstrip c s = rev (dropWhile (\<lambda>x. x = c) (rev s))"

text \<open>\<open>os.path.basename\<close>, \<open>os.path.dirname\<close> and \<open>os.path.join\<close> (posixpath).\<close>

definition basename :: "string \<Rightarrow> string" where
  "basename p = drop (nat (rfind p (CHR ''/'') + 1)) p"

definition dirname :: "string \<Rightarrow> string" where
  "dirname p =
     (let i = nat (rfind p (CHR ''/'') + 1);
          head = take i p
      in if head \<noteq> [] \<and> head \<noteq> replicate (length head) (CHR ''/'')
         then rstrip (CHR ''/'') head
         else head)"

definition path_join :: "string \<Rightarrow> string \<Rightarrow> string" where
  "path_join a b =
     (if startswith b ''/'' then b
      else if a = [] \<or> (a \<noteq> [] \<and> last a = CHR ''/'') then a @ b
      else a @ ''/'' @ b)"

section \<open>Data of a conversion run\<close>

text \<open>The ten mapper classes that \<open>converter.py\<close> imports and instantiates.\<close>

datatype mapper_class =
    MetadataBaseMapper
  | MetadataContactMapper
  | MetadataPublicationMapper
  | MetadataCvMapper
  | MetadataSampleMapper
  | MetadataSampleProcessingMapper
  | MetadataSoftwareMapper
  | MetadataDatabaseMapper
  | MetadataAssayMapper
  | SmallMoleculeSummaryMapper

text \<open>
  A mapper object: its class, its identity (Python's \<open>id\<close>, fixed when the object is
  constructed) and its attribute state \<open>'m\<close>, which \<open>update\<close> may read and change.
\<close>

record 'm mapper_object =
  cls :: mapper_class
  oid :: nat
  attrs :: 'm

text \<open>A Python exception that leaves \<open>convert\<close>, with its text.\<close>

datatype exn = PyError string

text \<open>
  What \<open>subprocess.run(..., capture_output=True, text=True, check=True, timeout=120)\<close>
  does: it returns a completed process (exit status 0), or raises \<open>TimeoutExpired\<close>,
  or \<open>CalledProcessError\<close> (non-zero exit status), each with the captured stdout
  and stderr in this order, or raises any other exception (nothing was captured).
  Such an exception is either an \<open>Exception\<close> (given with its text), or a
  \<open>BaseException\<close> that is not an \<open>Exception\<close>, as the \<open>KeyboardInterrupt\<close> of
  a user who interrupts the wait for the tool.
\<close>

datatype run_result =
    CompletedProcess string string
  | TimeoutExpired string string
  | CalledProcessError string string
  | OtherException string
  | OtherBaseException exn

text \<open>The command-line options of \<open>convert\<close>.\<close>

record args =
  input_file :: string
  output_dir :: string
  mtbls_accession_number :: string
  container_engine :: string
  mztab2m_json_convertor_image :: string
  override_mztab2m_json_file :: bool

text \<open>
  The collaborators of \<open>convert\<close> that are not part of \<open>converter.py\<close>: the file
  system, the subprocess, the JSON reader, \<open>utils\<close>, the \<open>MzTab\<close> model and the
  \<open>update\<close> methods of the mapper classes. They are parameters of the model.
  \<open>'j\<close> is the raw JSON structure, \<open>'s\<close> the source model, \<open>'d\<close> the destination
  model. A function that works in place returns the object as it leaves it. A call
  that can raise returns \<open>Inl\<close> of the exception; \<open>update\<close>, whose partial changes
  stay in the objects when it raises, returns the exception beside the objects.
\<close>

record ('j, 's, 'd, 'm) env =
  path_exists :: "string \<Rightarrow> bool"
  realpath :: "string \<Rightarrow> string"
  subprocess_run :: "string list \<Rightarrow> nat \<Rightarrow> run_result"
  json_load :: "string \<Rightarrow> exn + 'j"
  replace_null_string_with_none :: "'j \<Rightarrow> exn + 'j"
  model_validate :: "'j \<Rightarrow> exn + 's"
  modify_mztab_model :: "'s \<Rightarrow> exn + 's"
  create_metabolights_study_model :: "string \<Rightarrow> exn + 'd"
  update :: "mapper_class \<Rightarrow> 'm \<Rightarrow> 's \<Rightarrow> 'd \<Rightarrow> exn option \<times> 'm \<times> 's \<times> 'd"
  save_metabolights_study_model :: "'d \<Rightarrow> string \<Rightarrow> exn option"

text \<open>
  The observable actions of a run, in the order they happen: a line printed, the
  subprocess launched (command and timeout), the JSON file opened and read, and each
  call of a collaborator with the objects it receives.
\<close>

datatype ('j, 's, 'd, 'm) event =
    Print string
  | SubprocessRun "string list" nat
  | OpenJson string
  | ReplaceNull 'j
  | ModelValidate 'j
  | ModifyModel 's
  | CreateStudyModel string
  | Update "'m mapper_object" 's 'd
  | SaveStudyModel 'd string

text \<open>How \<open>convert\<close> ends: it returns, \<open>sys.exit(n)\<close>, or an exception propagates.\<close>

datatype outcome = Returned | SystemExit nat | Raised exn

section \<open>The module-level mapper list\<close>

text \<open>
  \<^verbatim>\<open>
  mappers: List[BaseMapper] = [
      MetadataBaseMapper(), MetadataContactMapper(), MetadataPublicationMapper(),
      MetadataCvMapper(), MetadataSampleMapper(), MetadataSampleProcessingMapper(),
      MetadataSoftwareMapper(), MetadataDatabaseMapper(), MetadataAssayMapper(),
      SmallMoleculeSummaryMapper(),
  ]
  \<close>
  The list is evaluated when the module is imported: each constructor call makes one
  object. \<open>init c\<close> is the attribute state a fresh object of class \<open>c\<close> has.
\<close>

definition construct :: "(mapper_class \<Rightarrow> 'm) \<Rightarrow> nat \<Rightarrow> mapper_class \<Rightarrow> 'm mapper_object" where
  "construct init k c = \<lparr>cls = c, oid = k, attrs = init c\<rparr>"

definition mappers :: "(mapper_class \<Rightarrow> 'm) \<Rightarrow> 'm mapper_object list" where
  "mappers init =
     [construct init 0 MetadataBaseMapper,
      construct init 1 MetadataContactMapper,
      construct init 2 MetadataPublicationMapper,
      construct init 3 MetadataCvMapper,
      construct init 4 MetadataSampleMapper,
      construct init 5 MetadataSampleProcessingMapper,
      construct init 6 MetadataSoftwareMapper,
      construct init 7 MetadataDatabaseMapper,
      construct init 8 MetadataAssayMapper,
      construct init 9 SmallMoleculeSummaryMapper]"

section \<open>The mapper loop\<close>

text \<open>
  \<^verbatim>\<open>
  for mapper in mappers:
      mapper.update(mztab_model, mtbls_model)
  \<close>
  The loop walks the list it is given. Each call receives the mapper object, the
  source model and the destination model as the calls before left them. When a call
  raises, the loop ends there and the exception propagates. The result is the
  exception (if any), the mapper objects, the two models and the calls made.
\<close>

fun run_mappers ::
  "('j, 's, 'd, 'm) env \<Rightarrow> 'm mapper_object list \<Rightarrow> 's \<Rightarrow> 'd \<Rightarrow>
     exn option \<times> 'm mapper_object list \<times> 's \<times> 'd \<times> ('j, 's, 'd, 'm) event list" where
  "run_mappers E [] s d = (None, [], s, d, [])"
| "run_mappers E (mapper # rest) s d =
     (case update E (cls mapper) (attrs mapper) s d of
        (Some e, a', s', d') \<Rightarrow>
          (Some e, mapper\<lparr>attrs := a'\<rparr> # rest, s', d', [Update mapper s d])
      | (None, a', s', d') \<Rightarrow>
          (case run_mappers E rest s' d' of
             (r, rest', s'', d'', evs) \<Rightarrow>
               (r, mapper\<lparr>attrs := a'\<rparr> # rest', s'', d'', Update mapper s d # evs)))"

section \<open>The pre-conversion step\<close>

text \<open>
  The command line handed to \<open>sh -c\<close>: the two adjacent f-strings of the source,
  with the directory and the file name of the resolved input path.
\<close>

definition tool_command :: "args \<Rightarrow> string \<Rightarrow> string \<Rightarrow> string" where
  "tool_command a dir filename =
     container_engine a @ '' run --rm -v '' @ dir @
     '':/home/data:rw --workdir=/home/data '' @ mztab2m_json_convertor_image a @
     '' jmztab-m -c /home/data/'' @ filename @
     '' --toJson -o /home/data/'' @ filename @ ''_validation.txt''"

definition msg_converting :: string where
  "msg_converting =
     ''Converting mzTab file to mzTab json format. '' @
     ''Please check container management tool (docker, podman, etc.) is installed and runnig.''"

definition msg_timed_out :: string where
  "msg_timed_out = ''The conversion of the mzTab file to mzTab json format timed out.''"

definition msg_failed :: string where
  "msg_failed = ''The conversion of the mzTab file to mzTab json format failed.''"

text \<open>
  The argument list of \<open>subprocess.run\<close> (lines 107 to 109 and 117 to 122).
\<close>

definition tool_argv :: "('j, 's, 'd, 'm) env \<Rightarrow> args \<Rightarrow> string list" where
  "tool_argv E a =
     (let abs_path = realpath E (input_file a);
          dir = dirname abs_path;
          filename = basename abs_path
      in [''sh'', ''-c'', tool_command a dir filename])"

text \<open>
  The \<open>else\<close> branch of lines 107 to 141: the \<open>try\<close> statement around
  \<open>subprocess.run\<close>. The variable \<open>task\<close> is \<open>None\<close> before the call and is
  assigned only when the call returns, so it is still \<open>None\<close> in every handler. The
  handlers are tried in the order \<open>TimeoutExpired\<close>, \<open>CalledProcessError\<close>,
  \<open>Exception\<close>; each prints and calls \<open>sys.exit(1)\<close>. An exception that is not an
  \<open>Exception\<close> meets no handler and propagates out of \<open>convert\<close>. The
  \<open>finally\<close> block runs in every case, after the handler if there is one, and
  prints the captured stdout when \<open>task\<close> is set and its stdout is not empty. The
  result is the events and, if the run ends here, how it ends.
\<close>

definition run_tool ::
  "('j, 's, 'd, 'm) env \<Rightarrow> args \<Rightarrow> ('j, 's, 'd, 'm) event list \<times> outcome option" where
  "run_tool E a =
     (let cmd = tool_argv E a;
          res = subprocess_run E cmd 120;
          task = (case res of CompletedProcess out err \<Rightarrow> Some (out, err) | _ \<Rightarrow> None);
          handler =
            (case res of
               CompletedProcess out err \<Rightarrow> ([], None)
             | TimeoutExpired out err \<Rightarrow> ([Print msg_timed_out], Some (SystemExit 1))
             | CalledProcessError out err \<Rightarrow>
                 ([Print msg_failed, Print err], Some (SystemExit 1))
             | OtherException msg \<Rightarrow>
                 ([Print msg_failed,
                   (case task of
                      Some (out, err) \<Rightarrow> if err \<noteq> [] then Print err else Print msg
                    | None \<Rightarrow> Print msg)], Some (SystemExit 1))
             | OtherBaseException e \<Rightarrow> ([], Some (Raised e)));
          finally_block =
            (case task of
               Some (out, err) \<Rightarrow> if out \<noteq> [] then [Print out] else []
             | None \<Rightarrow> [])
      in ([Print msg_converting, SubprocessRun cmd 120] @ fst handler @ finally_block,
          snd handler))"

text \<open>
  Lines 101 to 141: which file holds the JSON model. The result is the events, how
  the run ends if it ends here, and \<open>input_json_file\<close>.
\<close>

definition locate_json ::
  "('j, 's, 'd, 'm) env \<Rightarrow> args \<Rightarrow>
     ('j, 's, 'd, 'm) event list \<times> outcome option \<times> string" where
  "locate_json E a =
     (let extension = snd (splitext (input_file a))
      in if lower extension \<noteq> ''.json''
         then (let input_json_file = input_file a @ ''.json''
               in if \<not> override_mztab2m_json_file a \<and> path_exists E input_json_file
                  then ([Print (input_json_file @ '' file exists, it will be used as an input.'')],
                        None, input_json_file)
                  else (case run_tool E a of (evs, ex) \<Rightarrow> (evs, ex, input_json_file)))
         else ([], None, input_file a))"

section \<open>Reading, normalising, mapping and saving\<close>

text \<open>
  Lines 143 to 150: the JSON file is read, the raw structure is normalised in place,
  the source model is built from it and normalised in place, and the destination
  skeleton is created. An exception of any call propagates out of \<open>convert\<close>:
  there is no \<open>try\<close> around these lines. The result is the events and either the
  exception or the two models.
\<close>

definition prepare ::
  "('j, 's, 'd, 'm) env \<Rightarrow> args \<Rightarrow> string \<Rightarrow>
     ('j, 's, 'd, 'm) event list \<times> (exn + 's \<times> 'd)" where
  "prepare E a input_json_file =
     (case json_load E input_json_file of
        Inl e \<Rightarrow> ([OpenJson input_json_file], Inl e)
      | Inr mztab_json_data \<Rightarrow>
     (case replace_null_string_with_none E mztab_json_data of
        Inl e \<Rightarrow> ([OpenJson input_json_file, ReplaceNull mztab_json_data], Inl e)
      | Inr normal_json \<Rightarrow>
     (case model_validate E normal_json of
        Inl e \<Rightarrow>
          ([OpenJson input_json_file, ReplaceNull mztab_json_data,
            ModelValidate normal_json], Inl e)
      | Inr mztab_model \<Rightarrow>
     (case modify_mztab_model E mztab_model of
        Inl e \<Rightarrow>
          ([OpenJson input_json_file, ReplaceNull mztab_json_data,
            ModelValidate normal_json, ModifyModel mztab_model], Inl e)
      | Inr normal_model \<Rightarrow>
     (case create_metabolights_study_model E (mtbls_accession_number a) of
        Inl e \<Rightarrow>
          ([OpenJson input_json_file, ReplaceNull mztab_json_data,
            ModelValidate normal_json, ModifyModel mztab_model,
            CreateStudyModel (mtbls_accession_number a)], Inl e)
      | Inr mtbls_model \<Rightarrow>
          ([OpenJson input_json_file, ReplaceNull mztab_json_data,
            ModelValidate normal_json, ModifyModel mztab_model,
            CreateStudyModel (mtbls_accession_number a)],
           Inr (normal_model, mtbls_model)))))))"

text \<open>
  Lines 143 to 157: after the preparation, the mapper loop and the call of the
  serializer, which is reached only when the loop ends without an exception. The
  result is how the run ends, the events, and the mapper objects as the run leaves
  them.
\<close>

definition pipeline ::
  "('j, 's, 'd, 'm) env \<Rightarrow> args \<Rightarrow> 'm mapper_object list \<Rightarrow> string \<Rightarrow>
     outcome \<times> ('j, 's, 'd, 'm) event list \<times> 'm mapper_object list" where
  "pipeline E a M input_json_file =
     (case prepare E a input_json_file of
        (pre, Inl e) \<Rightarrow> (Raised e, pre, M)
      | (pre, Inr (mztab_model, mtbls_model)) \<Rightarrow>
     (case run_mappers E M mztab_model mtbls_model of
        (Some e, M', s', d', evs) \<Rightarrow> (Raised e, pre @ evs, M')
      | (None, M', s', d', evs) \<Rightarrow>
          (let study_metadata_output_path =
                 path_join (output_dir a) (mtbls_accession_number a);
               tr = pre @ evs @ [SaveStudyModel d' study_metadata_output_path]
           in case save_metabolights_study_model E d' study_metadata_output_path of
                Some e \<Rightarrow> (Raised e, tr, M')
              | None \<Rightarrow> (Returned, tr, M'))))"

section \<open>The command\<close>

definition msg_disclaimer :: string where
  "msg_disclaimer =
     ''Please note that the mzTab-M file is not fully validated by this tool. '' @
     ''The ISA-Tab files are not validated either at the moment.''"

definition banner :: "args \<Rightarrow> ('j, 's, 'd, 'm) event list" where
  "banner a =
     Print msg_disclaimer #
     (if startswith (input_file a) ''test/data/singa''
      then [Print ''Using default input file: test/data/singaporean-plasma-site1.mzTab'',
            Print ''Please use the --input-file option to specify a custom input file.'']
      else [])"

text \<open>
  \<open>convert\<close>, in a process whose module-level list \<open>mappers\<close> holds the objects
  \<open>M\<close>. It never builds a mapper object: it walks the list it finds.
\<close>

definition convert ::
  "('j, 's, 'd, 'm) env \<Rightarrow> args \<Rightarrow> 'm mapper_object list \<Rightarrow>
     outcome \<times> ('j, 's, 'd, 'm) event list \<times> 'm mapper_object list" where
  "convert E a M =
     (case locate_json E a of
        (evs, Some ended, input_json_file) \<Rightarrow> (ended, banner a @ evs, M)
      | (evs, None, input_json_file) \<Rightarrow>
          (case pipeline E a M input_json_file of
             (out, evs', M') \<Rightarrow> (out, banner a @ evs @ evs', M')))"

text \<open>The three parts of the result of \<open>convert\<close>.\<close>

definition outcome_of :: "outcome \<times> 'e list \<times> 'o list \<Rightarrow> outcome" where
  "outcome_of r = fst r"

definition trace_of :: "outcome \<times> 'e list \<times> 'o list \<Rightarrow> 'e list" where
  "trace_of r = fst (snd r)"

definition mappers_of :: "outcome \<times> 'e list \<times> 'o list \<Rightarrow> 'o list" where
  "mappers_of r = snd (snd r)"

section \<open>Reading a trace\<close>

text \<open>The subprocess launches, the files read, the mapper calls and the saves of a trace.\<close>

fun tool_run_of :: "('j, 's, 'd, 'm) event \<Rightarrow> (string list \<times> nat) list" where
  "tool_run_of (SubprocessRun cmd t) = [(cmd, t)]"
| "tool_run_of _ = []"

definition tool_runs :: "('j, 's, 'd, 'm) event list \<Rightarrow> (string list \<times> nat) list" where
  "tool_runs tr = concat (map tool_run_of tr)"

fun opened_of :: "('j, 's, 'd, 'm) event \<Rightarrow> string list" where
  "opened_of (OpenJson p) = [p]"
| "opened_of _ = []"

definition opened :: "('j, 's, 'd, 'm) event list \<Rightarrow> string list" where
  "opened tr = concat (map opened_of tr)"

fun call_of :: "('j, 's, 'd, 'm) event \<Rightarrow> ('m mapper_object \<times> 's \<times> 'd) list" where
  "call_of (Update m s d) = [(m, s, d)]"
| "call_of _ = []"

definition calls :: "('j, 's, 'd, 'm) event list \<Rightarrow> ('m mapper_object \<times> 's \<times> 'd) list" where
  "calls tr = concat (map call_of tr)"

fun saved_of :: "('j, 's, 'd, 'm) event \<Rightarrow> ('d \<times> string) list" where
  "saved_of (SaveStudyModel d p) = [(d, p)]"
| "saved_of _ = []"

definition saved :: "('j, 's, 'd, 'm) event list \<Rightarrow> ('d \<times> string) list" where
  "saved tr = concat (map saved_of tr)"

fun printed_of :: "('j, 's, 'd, 'm) event \<Rightarrow> string list" where
  "printed_of (Print l) = [l]"
| "printed_of _ = []"

definition printed :: "('j, 's, 'd, 'm) event list \<Rightarrow> string list" where
  "printed tr = concat (map printed_of tr)"

text \<open>The processing steps of a trace, without the objects they work on.\<close>

datatype stage =
    StRead
  | StNormalizeJson
  | StValidate
  | StNormalizeModel
  | StCreate
  | StMapper mapper_class
  | StSerialize

fun stage_of :: "('j, 's, 'd, 'm) event \<Rightarrow> stage list" where
  "stage_of (OpenJson p) = [StRead]"
| "stage_of (ReplaceNull j) = [StNormalizeJson]"
| "stage_of (ModelValidate j) = [StValidate]"
| "stage_of (ModifyModel s) = [StNormalizeModel]"
| "stage_of (CreateStudyModel acc) = [StCreate]"
| "stage_of (Update m s d) = [StMapper (cls m)]"
| "stage_of (SaveStudyModel d p) = [StSerialize]"
| "stage_of _ = []"

definition stages :: "('j, 's, 'd, 'm) event list \<Rightarrow> stage list" where
  "stages tr = concat (map stage_of tr)"

text \<open>
  The calls of a loop that works on one pair of objects: no call before the last one
  raises, and each call receives the source and the destination model exactly as the
  call before it left them.
\<close>

fun threaded ::
  "('j, 's, 'd, 'm) env \<Rightarrow> ('m mapper_object \<times> 's \<times> 'd) list \<Rightarrow> bool" where
  "threaded E [] = True"
| "threaded E [c] = True"
| "threaded E ((m, s, d) # (m', s', d') # cs) =
     ((case update E (cls m) (attrs m) s d of
         (r, a1, s1, d1) \<Rightarrow> r = None \<and> s' = s1 \<and> d' = d1) \<and>
      threaded E ((m', s', d') # cs))"

text \<open>The order of the processing steps of a run that walks the mapper objects \<open>M\<close>.\<close>

definition step_order :: "'m mapper_object list \<Rightarrow> stage list" where
  "step_order M =
     [StRead, StNormalizeJson, StValidate, StNormalizeModel, StCreate] @
     map StMapper (map cls M) @ [StSerialize]"

section \<open>Example runs\<close>

text \<open>
  A small world to run \<open>convert\<close> in. The raw JSON structure and the two models are
  lists of strings, and the attribute state of a mapper object counts the calls of
  its \<open>update\<close>. No JSON file exists beside the input; the tool succeeds.
\<close>

definition example_env :: "(string list, string list, string list, nat) env" where
  "example_env =
     \<lparr>path_exists = (\<lambda>p. False),
      realpath = (\<lambda>p. ''/data/'' @ p),
      subprocess_run = (\<lambda>cmd t. CompletedProcess ''done'' []),
      json_load = (\<lambda>p. Inr [''null'', ''title'']),
      replace_null_string_with_none = (\<lambda>j. Inr (filter (\<lambda>x. x \<noteq> ''null'') j)),
      model_validate = (\<lambda>j. Inr j),
      modify_mztab_model = (\<lambda>s. Inr (s @ [''fixed''])),
      create_metabolights_study_model = (\<lambda>acc. Inr [acc]),
      update = (\<lambda>c n s d. (None, Suc n, s, d @ [''row''])),
      save_metabolights_study_model = (\<lambda>d p. None)\<rparr>"

definition example_args :: args where
  "example_args =
     \<lparr>input_file = ''study.mzTab'',
      output_dir = ''output'',
      mtbls_accession_number = ''MTBLS1'',
      container_engine = ''docker'',
      mztab2m_json_convertor_image = ''img'',
      override_mztab2m_json_file = False\<rparr>"

text \<open>The same world with a tool that runs out of time, or exits with a non-zero status.\<close>

definition timeout_env :: "(string list, string list, string list, nat) env" where
  "timeout_env =
     example_env\<lparr>subprocess_run := (\<lambda>cmd t. TimeoutExpired ''partial'' ''diagnostic'')\<rparr>"

definition failing_tool_env :: "(string list, string list, string list, nat) env" where
  "failing_tool_env =
     example_env\<lparr>subprocess_run := (\<lambda>cmd t. CalledProcessError ''partial'' ''diagnostic'')\<rparr>"

text \<open>The same world where the user interrupts the wait for the tool.\<close>

definition interrupted_env :: "(string list, string list, string list, nat) env" where
  "interrupted_env =
     example_env\<lparr>subprocess_run :=
       (\<lambda>cmd t. OtherBaseException (PyError ''KeyboardInterrupt''))\<rparr>"

text \<open>The same world where the \<open>update\<close> of the fourth mapper raises.\<close>

definition failing_mapper_env :: "(string list, string list, string list, nat) env" where
  "failing_mapper_env =
     example_env\<lparr>update :=
       (\<lambda>c n s d. if c = MetadataCvMapper then (Some (PyError ''unresolved''), n, s, d @ [''half''])
                  else (None, Suc n, s, d @ [''row'']))\<rparr>"

text \<open>The same world where a JSON file exists beside the input.\<close>

definition cached_env :: "(string list, string list, string list, nat) env" where
  "cached_env = example_env\<lparr>path_exists := (\<lambda>p. p = ''study.mzTab.json'')\<rparr>"

section \<open>Facts about traces\<close>

lemma tool_runs_simps [simp]:
  "tool_runs [] = []"
  "tool_runs (e # tr) = tool_run_of e @ tool_runs tr"
  "tool_runs (tr @ tr') = tool_runs tr @ tool_runs tr'"
  by (simp_all add: tool_runs_def)

lemma opened_simps [simp]:
  "opened [] = []"
  "opened (e # tr) = opened_of e @ opened tr"
  "opened (tr @ tr') = opened tr @ opened tr'"
  by (simp_all add: opened_def)

lemma calls_simps [simp]:
  "calls [] = []"
  "calls (e # tr) = call_of e @ calls tr"
  "calls (tr @ tr') = calls tr @ calls tr'"
  by (simp_all add: calls_def)

lemma saved_simps [simp]:
  "saved [] = []"
  "saved (e # tr) = saved_of e @ saved tr"
  "saved (tr @ tr') = saved tr @ saved tr'"
  by (simp_all add: saved_def)

lemma printed_simps [simp]:
  "printed [] = []"
  "printed (e # tr) = printed_of e @ printed tr"
  "printed (tr @ tr') = printed tr @ printed tr'"
  by (simp_all add: printed_def)

lemma stages_simps [simp]:
  "stages [] = []"
  "stages (e # tr) = stage_of e @ stages tr"
  "stages (tr @ tr') = stages tr @ stages tr'"
  by (simp_all add: stages_def)

lemma banner_silent [simp]:
  "tool_runs (banner a) = []" "opened (banner a) = []" "calls (banner a) = []"
  "saved (banner a) = []" "stages (banner a) = []"
  by (simp_all add: banner_def)

section \<open>Facts about the mapper loop\<close>

lemma run_mappers_silent:
  assumes "run_mappers E M s d = (r, M', s', d', evs)"
  shows "tool_runs evs = []" and "opened evs = []" and "saved evs = []" and "printed evs = []"
  using assms
  by (induction M arbitrary: s d r M' s' d' evs; auto split: prod.splits option.splits)+

lemma run_mappers_calls_take:
  "run_mappers E M s d = (r, M', s', d', evs) \<Longrightarrow>
     map fst (calls evs) = take (length (calls evs)) M"
  by (induction M arbitrary: s d r M' s' d' evs)
     (auto split: prod.splits option.splits)

lemma run_mappers_stages:
  "run_mappers E M s d = (r, M', s', d', evs) \<Longrightarrow>
     stages evs = map StMapper (take (length (calls evs)) (map cls M))"
  by (induction M arbitrary: s d r M' s' d' evs)
     (auto split: prod.splits option.splits)

lemma run_mappers_complete:
  "run_mappers E M s d = (None, M', s', d', evs) \<Longrightarrow> length (calls evs) = length M"
  by (induction M arbitrary: s d M' s' d' evs)
     (auto split: prod.splits option.splits)

lemma run_mappers_raise_last:
  "run_mappers E M s d = (r, M', s', d', evs) \<Longrightarrow> (m, s0, d0) \<in> set (calls evs) \<Longrightarrow>
     fst (update E (cls m) (attrs m) s0 d0) = Some e \<Longrightarrow>
     r = Some e \<and> last evs = Update m s0 d0"
proof (induction M arbitrary: s d r M' s' d' evs)
  case Nil
  then show ?case by simp
next
  case (Cons x M)
  show ?case
  proof (cases "update E (cls x) (attrs x) s d")
    case (fields r1 a1 s1 d1)
    show ?thesis
    proof (cases r1)
      case None
      obtain r2 M2 s2 d2 evs2 where rec: "run_mappers E M s1 d1 = (r2, M2, s2, d2, evs2)"
        by (cases "run_mappers E M s1 d1") auto
      with Cons.prems(1) fields None have evs: "evs = Update x s d # evs2" and r: "r = r2"
        by auto
      from Cons.prems(2,3) evs fields None have mem: "(m, s0, d0) \<in> set (calls evs2)"
        by auto
      then have ne: "evs2 \<noteq> []" by auto
      from Cons.IH [OF rec mem Cons.prems(3)] evs r ne show ?thesis by simp
    next
      case (Some e1)
      with Cons.prems fields show ?thesis by auto
    qed
  qed
qed

lemma run_mappers_threaded:
  "run_mappers E M s d = (r, M', s', d', evs) \<Longrightarrow> threaded E (calls evs)"
proof (induction M arbitrary: s d r M' s' d' evs)
  case Nil
  then show ?case by simp
next
  case (Cons x M)
  show ?case
  proof (cases "update E (cls x) (attrs x) s d")
    case (fields r1 a1 s1 d1)
    show ?thesis
    proof (cases r1)
      case None
      obtain r2 M2 s2 d2 evs2 where rec: "run_mappers E M s1 d1 = (r2, M2, s2, d2, evs2)"
        by (cases "run_mappers E M s1 d1") auto
      with Cons.prems(1) fields None have evs: "calls evs = (x, s, d) # calls evs2"
        by auto
      have th: "threaded E (calls evs2)" by (rule Cons.IH [OF rec])
      show ?thesis
      proof (cases M)
        case Nil
        with rec have "calls evs2 = []" by simp
        with evs show ?thesis by simp
      next
        case (Cons y M3)
        with rec have "\<exists>rest. calls evs2 = (y, s1, d1) # rest"
          by (auto split: prod.splits option.splits)
        then obtain rest where "calls evs2 = (y, s1, d1) # rest" ..
        with evs th fields None show ?thesis by simp
      qed
    next
      case (Some e1)
      with Cons.prems fields show ?thesis by auto
    qed
  qed
qed

lemma run_mappers_same_objects:
  "run_mappers E M s d = (r, M', s', d', evs) \<Longrightarrow>
     map cls M' = map cls M \<and> map oid M' = map oid M"
  by (induction M arbitrary: s d r M' s' d' evs)
     (auto split: prod.splits option.splits)

lemma run_mappers_first_call:
  "run_mappers E M s d = (r, M', s', d', evs) \<Longrightarrow> calls evs \<noteq> [] \<Longrightarrow>
     hd (calls evs) = (hd M, s, d)"
  by (cases M) (auto split: prod.splits option.splits)

section \<open>Facts about the preparation and the pipeline\<close>

lemma prepare_silent [simp]:
  "tool_runs (fst (prepare E a p)) = []" "calls (fst (prepare E a p)) = []"
  "saved (fst (prepare E a p)) = []" "opened (fst (prepare E a p)) = [p]"
  by (simp_all add: prepare_def split: sum.splits)

lemma prepare_stages:
  "prefix (stages (fst (prepare E a p)))
     [StRead, StNormalizeJson, StValidate, StNormalizeModel, StCreate]"
  by (simp add: prepare_def split: sum.splits)

lemma prepare_stages_done:
  "prepare E a p = (pre, Inr sd) \<Longrightarrow>
     stages pre = [StRead, StNormalizeJson, StValidate, StNormalizeModel, StCreate]"
  by (auto simp: prepare_def split: sum.splits)

lemma prepare_accession:
  "CreateStudyModel acc \<in> set (fst (prepare E a p)) \<Longrightarrow> acc = mtbls_accession_number a"
  by (auto simp: prepare_def split: sum.splits)

lemma prepare_dataflow:
  "prepare E a p = (pre, Inr (s, d)) \<Longrightarrow>
     \<exists>j0 j1 s0. json_load E p = Inr j0 \<and> replace_null_string_with_none E j0 = Inr j1 \<and>
       model_validate E j1 = Inr s0 \<and> modify_mztab_model E s0 = Inr s \<and>
       create_metabolights_study_model E (mtbls_accession_number a) = Inr d \<and>
       pre = [OpenJson p, ReplaceNull j0, ModelValidate j1, ModifyModel s0,
              CreateStudyModel (mtbls_accession_number a)]"
  by (auto simp: prepare_def split: sum.splits)

lemma pipeline_cases:
  obtains (unprepared) pre e where "prepare E a p = (pre, Inl e)"
      "pipeline E a M p = (Raised e, pre, M)"
  | (looped) pre s d r M' s' d' evs where "prepare E a p = (pre, Inr (s, d))"
      "run_mappers E M s d = (r, M', s', d', evs)"
      "r \<noteq> None \<Longrightarrow> pipeline E a M p = (Raised (the r), pre @ evs, M')"
      "r = None \<Longrightarrow> trace_of (pipeline E a M p) =
          pre @ evs @ [SaveStudyModel d' (path_join (output_dir a) (mtbls_accession_number a))]"
      "r = None \<Longrightarrow> mappers_of (pipeline E a M p) = M'"
      "r = None \<Longrightarrow> outcome_of (pipeline E a M p) =
          (case save_metabolights_study_model E d' (path_join (output_dir a) (mtbls_accession_number a)) of
             Some e \<Rightarrow> Raised e | None \<Rightarrow> Returned)"
proof (cases "prepare E a p")
  case (Pair pre x)
  show ?thesis
  proof (cases x)
    case (Inl e)
    with Pair show ?thesis by (intro unprepared [of pre e]) (simp_all add: pipeline_def)
  next
    case (Inr sd)
    obtain s d where sd: "sd = (s, d)" by (cases sd)
    obtain r M' s' d' evs where rm: "run_mappers E M s d = (r, M', s', d', evs)"
      by (cases "run_mappers E M s d") auto
    show ?thesis
      using Pair Inr sd rm
      by (intro looped [of pre s d r M' s' d' evs])
         (auto simp: pipeline_def outcome_of_def trace_of_def mappers_of_def Let_def
               split: option.splits)
  qed
qed

lemma pipeline_quiet [simp]:
  "tool_runs (trace_of (pipeline E a M p)) = []" "opened (trace_of (pipeline E a M p)) = [p]"
proof -
  show "tool_runs (trace_of (pipeline E a M p)) = []"
  proof (cases rule: pipeline_cases [of E a p M])
    case (unprepared pre e)
    from prepare_silent(1) [of E a p] unprepared show ?thesis by (simp add: trace_of_def)
  next
    case (looped pre s d r M' s' d' evs)
    from prepare_silent(1) [of E a p] looped(1) have "tool_runs pre = []" by simp
    with looped run_mappers_silent(1) [OF looped(2)] show ?thesis
      by (cases r) (simp_all add: trace_of_def)
  qed
  show "opened (trace_of (pipeline E a M p)) = [p]"
  proof (cases rule: pipeline_cases [of E a p M])
    case (unprepared pre e)
    from prepare_silent(4) [of E a p] unprepared show ?thesis by (simp add: trace_of_def)
  next
    case (looped pre s d r M' s' d' evs)
    from prepare_silent(4) [of E a p] looped(1) have "opened pre = [p]" by simp
    with looped run_mappers_silent(2) [OF looped(2)] show ?thesis
      by (cases r) (simp_all add: trace_of_def)
  qed
qed

lemma pipeline_calls:
  "map fst (calls (trace_of (pipeline E a M p))) =
     take (length (calls (trace_of (pipeline E a M p)))) M"
proof (cases rule: pipeline_cases [of E a p M])
  case (unprepared pre e)
  from prepare_silent(2) [of E a p] unprepared show ?thesis by (simp add: trace_of_def)
next
  case (looped pre s d r M' s' d' evs)
  from prepare_silent(2) [of E a p] looped(1) have "calls pre = []" by simp
  with looped run_mappers_calls_take [OF looped(2)] show ?thesis
    by (cases r) (simp_all add: trace_of_def)
qed

lemma pipeline_threaded: "threaded E (calls (trace_of (pipeline E a M p)))"
proof (cases rule: pipeline_cases [of E a p M])
  case (unprepared pre e)
  from prepare_silent(2) [of E a p] unprepared show ?thesis by (simp add: trace_of_def)
next
  case (looped pre s d r M' s' d' evs)
  from prepare_silent(2) [of E a p] looped(1) have "calls pre = []" by simp
  with looped run_mappers_threaded [OF looped(2)] show ?thesis
    by (cases r) (simp_all add: trace_of_def)
qed

lemma pipeline_saved_iff:
  "saved (trace_of (pipeline E a M p)) \<noteq> [] \<Longrightarrow> map fst (calls (trace_of (pipeline E a M p))) = M"
proof (cases rule: pipeline_cases [of E a p M])
  case (unprepared pre e)
  assume "saved (trace_of (pipeline E a M p)) \<noteq> []"
  with prepare_silent(3) [of E a p] unprepared show ?thesis by (simp add: trace_of_def)
next
  case (looped pre s d r M' s' d' evs)
  assume sv: "saved (trace_of (pipeline E a M p)) \<noteq> []"
  from prepare_silent [of E a p] looped(1) have pre: "calls pre = []" "saved pre = []" by simp_all
  show ?thesis
  proof (cases r)
    case None
    with looped(2) have "length (calls evs) = length M" by (simp add: run_mappers_complete)
    with run_mappers_calls_take [OF looped(2)] looped(4) None pre show ?thesis by simp
  next
    case (Some e)
    with looped(3) sv pre run_mappers_silent(3) [OF looped(2)] show ?thesis
      by (simp add: trace_of_def)
  qed
qed

lemma pipeline_returned_saved:
  "outcome_of (pipeline E a M p) = Returned \<Longrightarrow> saved (trace_of (pipeline E a M p)) \<noteq> []"
proof (cases rule: pipeline_cases [of E a p M])
  case (unprepared pre e)
  assume "outcome_of (pipeline E a M p) = Returned"
  with unprepared show ?thesis by (simp add: outcome_of_def)
next
  case (looped pre s d r M' s' d' evs)
  assume "outcome_of (pipeline E a M p) = Returned"
  with looped show ?thesis by (cases r) (simp_all add: outcome_of_def)
qed

lemma pipeline_stages: "prefix (stages (trace_of (pipeline E a M p))) (step_order M)"
proof (cases rule: pipeline_cases [of E a p M])
  case (unprepared pre e)
  have "prefix [StRead, StNormalizeJson, StValidate, StNormalizeModel, StCreate] (step_order M)"
    by (simp add: step_order_def)
  with prepare_stages [of E a p] have "prefix (stages (fst (prepare E a p))) (step_order M)"
    by (rule prefix_order.trans)
  with unprepared show ?thesis by (simp add: trace_of_def)
next
  case (looped pre s d r M' s' d' evs)
  note st = prepare_stages_done [OF looped(1)] run_mappers_stages [OF looped(2)]
  show ?thesis
  proof (cases r)
    case None
    with looped(2) have "length (calls evs) = length M" by (simp add: run_mappers_complete)
    with st looped(4) None show ?thesis by (simp add: step_order_def)
  next
    case (Some e)
    have "prefix (take (length (calls evs)) (map StMapper (map cls M)))
            (map StMapper (map cls M) @ [StSerialize])"
      by (metis append_take_drop_id prefixI prefix_order.trans prefixI)
    with st looped(3) Some show ?thesis
      by (simp add: trace_of_def step_order_def take_map)
  qed
qed

lemma pipeline_raise:
  assumes "(m, s0, d0) \<in> set (calls (trace_of (pipeline E a M p)))"
      and "fst (update E (cls m) (attrs m) s0 d0) = Some e"
  shows "outcome_of (pipeline E a M p) = Raised e \<and>
         last (trace_of (pipeline E a M p)) = Update m s0 d0 \<and>
         saved (trace_of (pipeline E a M p)) = []"
proof (cases rule: pipeline_cases [of E a p M])
  case (unprepared pre e)
  with prepare_silent(2) [of E a p] assms(1) show ?thesis by (simp add: trace_of_def)
next
  case (looped pre s d r M' s' d' evs)
  from prepare_silent [of E a p] looped(1) have pre: "calls pre = []" "saved pre = []" by simp_all
  have mem: "(m, s0, d0) \<in> set (calls evs)"
    using assms(1) looped(3,4) pre by (cases r) (simp_all add: trace_of_def)
  from run_mappers_raise_last [OF looped(2) mem assms(2)]
  have r: "r = Some e" and l: "last evs = Update m s0 d0" by simp_all
  from mem have "evs \<noteq> []" by auto
  with r l looped(3) pre run_mappers_silent(3) [OF looped(2)] show ?thesis
    by (simp add: trace_of_def outcome_of_def)
qed

lemma pipeline_same_objects:
  "map cls (mappers_of (pipeline E a M p)) = map cls M \<and>
   map oid (mappers_of (pipeline E a M p)) = map oid M"
proof (cases rule: pipeline_cases [of E a p M])
  case (unprepared pre e)
  then show ?thesis by (simp add: mappers_of_def)
next
  case (looped pre s d r M' s' d' evs)
  with run_mappers_same_objects [OF looped(2)] show ?thesis
    by (cases r) (simp_all add: mappers_of_def)
qed

lemma pipeline_no_exit: "outcome_of (pipeline E a M p) \<noteq> SystemExit n"
proof (cases rule: pipeline_cases [of E a p M])
  case (unprepared pre e)
  then show ?thesis by (simp add: outcome_of_def)
next
  case (looped pre s d r M' s' d' evs)
  then show ?thesis by (cases r) (simp_all add: outcome_of_def split: option.splits)
qed

lemma pipeline_accession:
  "CreateStudyModel acc \<in> set (trace_of (pipeline E a M p)) \<Longrightarrow> acc = mtbls_accession_number a"
proof (cases rule: pipeline_cases [of E a p M])
  case (unprepared pre e)
  assume "CreateStudyModel acc \<in> set (trace_of (pipeline E a M p))"
  with unprepared prepare_accession [of acc E a p] show ?thesis by (simp add: trace_of_def)
next
  case (looped pre s d r M' s' d' evs)
  assume c: "CreateStudyModel acc \<in> set (trace_of (pipeline E a M p))"
  have "CreateStudyModel acc \<notin> set evs"
  proof
    assume "CreateStudyModel acc \<in> set evs"
    then have "StCreate \<in> set (stages evs)"
      by (auto simp: stages_def intro!: bexI [of _ "CreateStudyModel acc"])
    with run_mappers_stages [OF looped(2)] show False by (auto dest: in_set_takeD)
  qed
  with c looped(3,4) have "CreateStudyModel acc \<in> set pre"
    by (cases r) (auto simp: trace_of_def)
  with looped(1) prepare_accession [of acc E a p] show ?thesis by simp
qed

lemma pipeline_first_call:
  assumes "calls (trace_of (pipeline E a M p)) \<noteq> []"
  shows "\<exists>j0 j1 s0 s d. json_load E p = Inr j0 \<and> replace_null_string_with_none E j0 = Inr j1 \<and>
       model_validate E j1 = Inr s0 \<and> modify_mztab_model E s0 = Inr s \<and>
       create_metabolights_study_model E (mtbls_accession_number a) = Inr d \<and>
       hd (calls (trace_of (pipeline E a M p))) = (hd M, s, d)"
proof (cases rule: pipeline_cases [of E a p M])
  case (unprepared pre e)
  with prepare_silent(2) [of E a p] assms show ?thesis by (simp add: trace_of_def)
next
  case (looped pre s d r M' s' d' evs)
  from prepare_silent [of E a p] looped(1) have pre: "calls pre = []" by simp
  have c: "calls (trace_of (pipeline E a M p)) = calls evs"
    using looped(3,4) pre by (cases r) (simp_all add: trace_of_def)
  with assms run_mappers_first_call [OF looped(2)] have "hd (calls evs) = (hd M, s, d)" by simp
  with c prepare_dataflow [OF looped(1)] show ?thesis by auto
qed

section \<open>Facts about \<open>convert\<close>\<close>

lemma run_tool_quiet:
  "calls (fst (run_tool E a)) = []" "saved (fst (run_tool E a)) = []"
  "opened (fst (run_tool E a)) = []" "stages (fst (run_tool E a)) = []"
  by (simp_all add: run_tool_def Let_def split: run_result.splits)

lemma locate_json_quiet:
  assumes "locate_json E a = (evs, x, p)"
  shows "calls evs = []" and "saved evs = []" and "opened evs = []" and "stages evs = []"
  using assms run_tool_quiet [of E a]
  by (auto simp: locate_json_def Let_def split: if_splits prod.splits)

lemma run_tool_ended:
  "snd (run_tool E a) = Some out \<Longrightarrow> out \<noteq> Returned"
  by (auto simp: run_tool_def Let_def split: run_result.splits)

lemma locate_json_ended:
  "locate_json E a = (evs, Some out, p) \<Longrightarrow> out \<noteq> Returned"
  using run_tool_ended [of E a out]
  by (auto simp: locate_json_def Let_def split: if_splits prod.splits)

lemma convert_cases:
  obtains (ended) evs out p where "locate_json E a = (evs, Some out, p)"
      "outcome_of (convert E a M) = out"
      "trace_of (convert E a M) = banner a @ evs"
      "mappers_of (convert E a M) = M"
  | (piped) evs p where "locate_json E a = (evs, None, p)"
      "outcome_of (convert E a M) = outcome_of (pipeline E a M p)"
      "trace_of (convert E a M) = banner a @ evs @ trace_of (pipeline E a M p)"
      "mappers_of (convert E a M) = mappers_of (pipeline E a M p)"
proof (cases "locate_json E a")
  case (fields evs x p)
  show ?thesis
  proof (cases x)
    case None
    with fields show ?thesis
      by (intro piped [of evs p])
         (simp_all add: convert_def outcome_of_def trace_of_def mappers_of_def split: prod.splits)
  next
    case (Some out)
    with fields show ?thesis
      by (intro ended [of evs out p])
         (simp_all add: convert_def outcome_of_def trace_of_def mappers_of_def)
  qed
qed

lemma convert_calls:
  "map fst (calls (trace_of (convert E a M))) = take (length (calls (trace_of (convert E a M)))) M"
proof (cases rule: convert_cases [of E a M])
  case (ended evs out p)
  with locate_json_quiet [OF ended(1)] show ?thesis by simp
next
  case (piped evs p)
  have "calls (trace_of (convert E a M)) = calls (trace_of (pipeline E a M p))"
    using piped(3) locate_json_quiet [OF piped(1)] by simp
  with pipeline_calls [of E a M p] show ?thesis by simp
qed

lemma convert_threaded: "threaded E (calls (trace_of (convert E a M)))"
proof (cases rule: convert_cases [of E a M])
  case (ended evs out p)
  with locate_json_quiet [OF ended(1)] show ?thesis by simp
next
  case (piped evs p)
  have "calls (trace_of (convert E a M)) = calls (trace_of (pipeline E a M p))"
    using piped(3) locate_json_quiet [OF piped(1)] by simp
  with pipeline_threaded [of E a M p] show ?thesis by simp
qed

lemma convert_all_called:
  assumes "outcome_of (convert E a M) = Returned \<or> saved (trace_of (convert E a M)) \<noteq> []"
  shows "map fst (calls (trace_of (convert E a M))) = M"
proof (cases rule: convert_cases [of E a M])
  case (ended evs out p)
  with locate_json_quiet [OF ended(1)] locate_json_ended [OF ended(1)] assms
  show ?thesis by simp
next
  case (piped evs p)
  have c: "calls (trace_of (convert E a M)) = calls (trace_of (pipeline E a M p))"
    and s: "saved (trace_of (convert E a M)) = saved (trace_of (pipeline E a M p))"
    using piped(3) locate_json_quiet [OF piped(1)] by simp_all
  from assms piped(2) s have "saved (trace_of (pipeline E a M p)) \<noteq> []"
    using pipeline_returned_saved [of E a M p] by auto
  with pipeline_saved_iff [of E a M p] c show ?thesis by simp
qed

lemma convert_stages: "prefix (stages (trace_of (convert E a M))) (step_order M)"
proof (cases rule: convert_cases [of E a M])
  case (ended evs out p)
  with locate_json_quiet [OF ended(1)] show ?thesis by simp
next
  case (piped evs p)
  have "stages (trace_of (convert E a M)) = stages (trace_of (pipeline E a M p))"
    using piped(3) locate_json_quiet [OF piped(1)] by simp
  with pipeline_stages [of E a M p] show ?thesis by simp
qed

lemma convert_raise:
  assumes "(m, s0, d0) \<in> set (calls (trace_of (convert E a M)))"
      and "fst (update E (cls m) (attrs m) s0 d0) = Some e"
  shows "outcome_of (convert E a M) = Raised e \<and>
         last (trace_of (convert E a M)) = Update m s0 d0 \<and>
         saved (trace_of (convert E a M)) = []"
proof (cases rule: convert_cases [of E a M])
  case (ended evs out p)
  with locate_json_quiet [OF ended(1)] assms(1) show ?thesis by simp
next
  case (piped evs p)
  have c: "calls (trace_of (convert E a M)) = calls (trace_of (pipeline E a M p))"
    and s: "saved (trace_of (convert E a M)) = saved (trace_of (pipeline E a M p))"
    using piped(3) locate_json_quiet [OF piped(1)] by simp_all
  from assms(1) c have mem: "(m, s0, d0) \<in> set (calls (trace_of (pipeline E a M p)))" by simp
  then have ne: "trace_of (pipeline E a M p) \<noteq> []" by auto
  from pipeline_raise [OF mem assms(2)] s piped(2,3) ne show ?thesis by simp
qed

lemma convert_same_objects:
  "map cls (mappers_of (convert E a M)) = map cls M \<and>
   map oid (mappers_of (convert E a M)) = map oid M"
proof (cases rule: convert_cases [of E a M])
  case (ended evs out p)
  then show ?thesis by simp
next
  case (piped evs p)
  with pipeline_same_objects [of E a M p] show ?thesis by simp
qed

lemma stage_of_create:
  "CreateStudyModel acc \<in> set tr \<Longrightarrow> StCreate \<in> set (stages tr)"
  unfolding stages_def by (auto intro!: bexI [of _ "CreateStudyModel acc"])

lemma convert_accession:
  assumes "CreateStudyModel acc \<in> set (trace_of (convert E a M))"
  shows "acc = mtbls_accession_number a"
proof (cases rule: convert_cases [of E a M])
  case (ended evs out p)
  from assms have "StCreate \<in> set (stages (trace_of (convert E a M)))"
    by (rule stage_of_create)
  with ended locate_json_quiet [OF ended(1)] show ?thesis by simp
next
  case (piped evs p)
  have "CreateStudyModel acc \<notin> set (banner a @ evs)"
  proof
    assume "CreateStudyModel acc \<in> set (banner a @ evs)"
    then have "StCreate \<in> set (stages (banner a @ evs))" by (rule stage_of_create)
    with locate_json_quiet [OF piped(1)] show False by simp
  qed
  with assms piped(3) have "CreateStudyModel acc \<in> set (trace_of (pipeline E a M p))"
    by auto
  then show ?thesis by (rule pipeline_accession)
qed

lemma convert_first_call:
  assumes "calls (trace_of (convert E a M)) \<noteq> []"
  shows "\<exists>p j0 j1 s0 s d. opened (trace_of (convert E a M)) = [p] \<and>
       json_load E p = Inr j0 \<and> replace_null_string_with_none E j0 = Inr j1 \<and>
       model_validate E j1 = Inr s0 \<and> modify_mztab_model E s0 = Inr s \<and>
       create_metabolights_study_model E (mtbls_accession_number a) = Inr d \<and>
       hd (calls (trace_of (convert E a M))) = (hd M, s, d)"
proof (cases rule: convert_cases [of E a M])
  case (ended evs out p)
  with locate_json_quiet [OF ended(1)] assms show ?thesis by simp
next
  case (piped evs p)
  have c: "calls (trace_of (convert E a M)) = calls (trace_of (pipeline E a M p))"
    and o: "opened (trace_of (convert E a M)) = [p]"
    using piped(3) locate_json_quiet [OF piped(1)] by simp_all
  from assms c have "calls (trace_of (pipeline E a M p)) \<noteq> []" by simp
  from pipeline_first_call [OF this] c o show ?thesis by auto
qed

lemma convert_saved_stages:
  assumes "saved (trace_of (convert E a M)) \<noteq> []"
  shows "stages (trace_of (convert E a M)) = step_order M"
proof -
  have "StSerialize \<in> set (stages (trace_of (convert E a M)))"
  proof -
    from assms obtain x where "x \<in> set (saved (trace_of (convert E a M)))"
      by (cases "saved (trace_of (convert E a M))") auto
    then obtain ev where ev: "ev \<in> set (trace_of (convert E a M))" "x \<in> set (saved_of ev)"
      by (auto simp: saved_def)
    from ev(2) have "StSerialize \<in> set (stage_of ev)" by (cases ev) auto
    with ev(1) show ?thesis by (auto simp: stages_def)
  qed
  moreover from convert_stages [of E a M]
  obtain zs where zs: "step_order M = stages (trace_of (convert E a M)) @ zs"
    by (auto simp: prefix_def)
  moreover have "StSerialize \<notin> set (butlast (step_order M))"
    by (auto simp: step_order_def butlast_append)
  ultimately show ?thesis
    by (cases zs rule: rev_cases) (auto simp: butlast_append)
qed

section \<open>The example runs, evaluated\<close>

lemmas model_defs =
  convert_def locate_json_def run_tool_def tool_argv_def tool_command_def pipeline_def
  prepare_def banner_def splitext_def rfind_def lower_def lower_char_def has_nondot.simps
  startswith_def dirname_def basename_def rstrip_def path_join_def mappers_def
  construct_def outcome_of_def trace_of_def mappers_of_def Let_def

lemmas example_defs =
  example_env_def example_args_def timeout_env_def failing_tool_env_def
  interrupted_env_def failing_mapper_env_def cached_env_def

lemma example_run_returns:
  "outcome_of (convert example_env example_args (mappers (\<lambda>c. 0))) = Returned"
  by (simp add: model_defs example_defs)

lemma failing_mapper_calls:
  "calls (trace_of (convert failing_mapper_env example_args (mappers (\<lambda>c. 0)))) =
     [(\<lparr>cls = MetadataBaseMapper, oid = 0, attrs = 0\<rparr>, [''title'', ''fixed''], [''MTBLS1'']),
      (\<lparr>cls = MetadataContactMapper, oid = 1, attrs = 0\<rparr>, [''title'', ''fixed''],
         [''MTBLS1'', ''row'']),
      (\<lparr>cls = MetadataPublicationMapper, oid = 2, attrs = 0\<rparr>, [''title'', ''fixed''],
         [''MTBLS1'', ''row'', ''row'']),
      (\<lparr>cls = MetadataCvMapper, oid = 3, attrs = 0\<rparr>, [''title'', ''fixed''],
         [''MTBLS1'', ''row'', ''row'', ''row''])]"
  by (simp add: model_defs example_defs)


section \<open>The pipeline driver\<close>

text \<open>
  Claim C1. In every run of \<open>convert\<close>, in a process that has imported the module,
  the calls of \<open>update\<close> follow the declared order of the list \<open>mappers\<close>: the
  classes of the objects called, in the order of the calls, are an initial part of
  the declared list (contacts before publications, before controlled-vocabulary
  terms, before samples, before sample processing, before software, before
  databases, before assay metadata, before the small-molecule summary), and so are
  the identities of the objects, so no mapper is called twice and none out of turn.
  The calls work on one pair of objects: a call receives the source and the
  destination model as the call before it left them, and a call is made only after
  the call before it has returned. A run that reaches the serializer, and so every
  run that returns, has called every mapper of the list exactly once. The initial
  part is a proper one only in a run that ends early (claim C2).
\<close>

theorem C1_mappers_applied_in_declared_order:
  "prefix (map (\<lambda>c. cls (fst c)) (calls (trace_of (convert E a (mappers init)))))
     [MetadataBaseMapper, MetadataContactMapper, MetadataPublicationMapper, MetadataCvMapper,
      MetadataSampleMapper, MetadataSampleProcessingMapper, MetadataSoftwareMapper,
      MetadataDatabaseMapper, MetadataAssayMapper, SmallMoleculeSummaryMapper] \<and>
   prefix (map (\<lambda>c. oid (fst c)) (calls (trace_of (convert E a (mappers init)))))
     [0, 1, 2, 3, 4, 5, 6, 7, 8, 9] \<and>
   threaded E (calls (trace_of (convert E a (mappers init)))) \<and>
   (outcome_of (convert E a (mappers init)) = Returned \<or>
    saved (trace_of (convert E a (mappers init))) \<noteq> [] \<longrightarrow>
      map (\<lambda>c. cls (fst c)) (calls (trace_of (convert E a (mappers init)))) =
        [MetadataBaseMapper, MetadataContactMapper, MetadataPublicationMapper, MetadataCvMapper,
         MetadataSampleMapper, MetadataSampleProcessingMapper, MetadataSoftwareMapper,
         MetadataDatabaseMapper, MetadataAssayMapper, SmallMoleculeSummaryMapper] \<and>
      map (\<lambda>c. oid (fst c)) (calls (trace_of (convert E a (mappers init)))) =
        [0, 1, 2, 3, 4, 5, 6, 7, 8, 9])"
proof -
  let ?cs = "calls (trace_of (convert E a (mappers init)))"
  have take: "map fst ?cs = take (length ?cs) (mappers init)" by (rule convert_calls)
  have "map (\<lambda>c. cls (fst c)) ?cs = map cls (map fst ?cs)" by simp
  also have "\<dots> = take (length ?cs) (map cls (mappers init))" by (simp only: take take_map)
  finally have c: "prefix (map (\<lambda>c. cls (fst c)) ?cs) (map cls (mappers init))"
    by (simp add: take_is_prefix)
  have "map (\<lambda>c. oid (fst c)) ?cs = map oid (map fst ?cs)" by simp
  also have "\<dots> = take (length ?cs) (map oid (mappers init))" by (simp only: take take_map)
  finally have o: "prefix (map (\<lambda>c. oid (fst c)) ?cs) (map oid (mappers init))"
    by (simp add: take_is_prefix)
  have all: "map (\<lambda>c. cls (fst c)) ?cs = map cls (mappers init) \<and>
             map (\<lambda>c. oid (fst c)) ?cs = map oid (mappers init)"
    if "outcome_of (convert E a (mappers init)) = Returned \<or>
        saved (trace_of (convert E a (mappers init))) \<noteq> []"
  proof -
    from convert_all_called [OF that] have "map fst ?cs = mappers init" .
    then have "map cls (map fst ?cs) = map cls (mappers init)"
      and "map oid (map fst ?cs) = map oid (mappers init)" by simp_all
    then show ?thesis by (simp add: comp_def)
  qed
  have cl: "map cls (mappers init) =
      [MetadataBaseMapper, MetadataContactMapper, MetadataPublicationMapper, MetadataCvMapper,
       MetadataSampleMapper, MetadataSampleProcessingMapper, MetadataSoftwareMapper,
       MetadataDatabaseMapper, MetadataAssayMapper, SmallMoleculeSummaryMapper]"
    and oi: "map oid (mappers init) = [0, 1, 2, 3, 4, 5, 6, 7, 8, 9]"
    by (simp_all add: mappers_def construct_def)
  from c o all convert_threaded [of E a "mappers init"] show ?thesis
    unfolding cl oi by blast
qed

text \<open>
  The example run returns, and it has called the ten mappers in the declared order.
\<close>

theorem C1_witness:
  "outcome_of (convert example_env example_args (mappers (\<lambda>c. 0))) = Returned \<and>
   map (\<lambda>c. cls (fst c))
     (calls (trace_of (convert example_env example_args (mappers (\<lambda>c. 0))))) =
     [MetadataBaseMapper, MetadataContactMapper, MetadataPublicationMapper, MetadataCvMapper,
      MetadataSampleMapper, MetadataSampleProcessingMapper, MetadataSoftwareMapper,
      MetadataDatabaseMapper, MetadataAssayMapper, SmallMoleculeSummaryMapper]"
  using C1_mappers_applied_in_declared_order [of example_env example_args "\<lambda>c. 0"]
    example_run_returns
  by simp


text \<open>
  Claim C2. When a call of \<open>update\<close> made in a run raises, the exception leaves
  \<open>convert\<close>; the raising call is the last action of the run, so no later mapper
  is called; the mappers called are the ones up to it in the list; and the
  serializer is never called.
\<close>

theorem C2_failed_mapper_aborts_run:
  assumes "(m, s, d) \<in> set (calls (trace_of (convert E a M)))"
      and "fst (update E (cls m) (attrs m) s d) = Some e"
  shows "outcome_of (convert E a M) = Raised e \<and>
         last (trace_of (convert E a M)) = Update m s d \<and>
         saved (trace_of (convert E a M)) = [] \<and>
         map fst (calls (trace_of (convert E a M))) =
           take (length (calls (trace_of (convert E a M)))) M"
  using convert_raise [OF assms] convert_calls [of E a M] by simp


text \<open>
  In the example where the \<open>update\<close> of the fourth mapper raises, the run ends
  with that exception and nothing is saved.
\<close>

theorem C2_witness:
  "(\<lparr>cls = MetadataCvMapper, oid = 3, attrs = 0\<rparr>, [''title'', ''fixed''],
      [''MTBLS1'', ''row'', ''row'', ''row''])
     \<in> set (calls (trace_of (convert failing_mapper_env example_args (mappers (\<lambda>c. 0))))) \<and>
   fst (update failing_mapper_env MetadataCvMapper 0 [''title'', ''fixed'']
      [''MTBLS1'', ''row'', ''row'', ''row'']) = Some (PyError ''unresolved'') \<and>
   outcome_of (convert failing_mapper_env example_args (mappers (\<lambda>c. 0))) =
     Raised (PyError ''unresolved'') \<and>
   saved (trace_of (convert failing_mapper_env example_args (mappers (\<lambda>c. 0)))) = []"
proof -
  have mem: "(\<lparr>cls = MetadataCvMapper, oid = 3, attrs = 0\<rparr>, [''title'', ''fixed''],
      [''MTBLS1'', ''row'', ''row'', ''row''])
     \<in> set (calls (trace_of (convert failing_mapper_env example_args (mappers (\<lambda>c. 0)))))"
    by (simp add: failing_mapper_calls)
  have raises: "fst (update failing_mapper_env
      (cls \<lparr>cls = MetadataCvMapper, oid = 3, attrs = 0::nat\<rparr>)
      (attrs \<lparr>cls = MetadataCvMapper, oid = 3, attrs = 0::nat\<rparr>) [''title'', ''fixed'']
      [''MTBLS1'', ''row'', ''row'', ''row'']) = Some (PyError ''unresolved'')"
    by (simp add: failing_mapper_env_def example_env_def)
  from C2_failed_mapper_aborts_run [OF mem raises] mem raises show ?thesis by simp
qed

section \<open>Facts about the choice of the JSON file\<close>

lemma locate_json_json:
  "lower (snd (splitext (input_file a))) = ''.json'' \<Longrightarrow>
     locate_json E a = ([], None, input_file a)"
  by (simp add: locate_json_def)

lemma locate_json_cached:
  "lower (snd (splitext (input_file a))) \<noteq> ''.json'' \<Longrightarrow>
   \<not> override_mztab2m_json_file a \<Longrightarrow> path_exists E (input_file a @ ''.json'') \<Longrightarrow>
     locate_json E a =
       ([Print ((input_file a @ ''.json'') @ '' file exists, it will be used as an input.'')],
        None, input_file a @ ''.json'')"
  by (simp add: locate_json_def)

lemma locate_json_tool:
  "lower (snd (splitext (input_file a))) \<noteq> ''.json'' \<Longrightarrow>
   override_mztab2m_json_file a \<or> \<not> path_exists E (input_file a @ ''.json'') \<Longrightarrow>
     locate_json E a = (fst (run_tool E a), snd (run_tool E a), input_file a @ ''.json'')"
  by (auto simp: locate_json_def split: prod.splits)

lemma locate_json_path:
  "lower (snd (splitext (input_file a))) \<noteq> ''.json'' \<Longrightarrow>
     snd (snd (locate_json E a)) = input_file a @ ''.json''"
  by (auto simp: locate_json_def Let_def split: prod.splits)

lemma run_tool_timeout:
  "subprocess_run E (tool_argv E a) 120 = TimeoutExpired out err \<Longrightarrow>
     run_tool E a =
       ([Print msg_converting, SubprocessRun (tool_argv E a) 120, Print msg_timed_out],
        Some (SystemExit 1))"
  by (simp add: run_tool_def Let_def)

lemma run_tool_failed:
  "subprocess_run E (tool_argv E a) 120 = CalledProcessError out err \<Longrightarrow>
     run_tool E a =
       ([Print msg_converting, SubprocessRun (tool_argv E a) 120, Print msg_failed, Print err],
        Some (SystemExit 1))"
  by (simp add: run_tool_def Let_def)

lemma run_tool_other:
  "subprocess_run E (tool_argv E a) 120 = OtherException msg \<Longrightarrow>
     run_tool E a =
       ([Print msg_converting, SubprocessRun (tool_argv E a) 120, Print msg_failed, Print msg],
        Some (SystemExit 1))"
  by (simp add: run_tool_def Let_def)

lemma run_tool_uncaught:
  "subprocess_run E (tool_argv E a) 120 = OtherBaseException e \<Longrightarrow>
     run_tool E a =
       ([Print msg_converting, SubprocessRun (tool_argv E a) 120], Some (Raised e))"
  by (simp add: run_tool_def Let_def)

lemma run_tool_completed:
  "subprocess_run E (tool_argv E a) 120 = CompletedProcess out err \<Longrightarrow>
     snd (run_tool E a) = None"
  by (simp add: run_tool_def Let_def)

lemma convert_exit:
  assumes "locate_json E a = (evs, Some out, p)"
  shows "outcome_of (convert E a M) = out"
    and "trace_of (convert E a M) = banner a @ evs"
    and "mappers_of (convert E a M) = M"
  using assms by (simp_all add: convert_def outcome_of_def trace_of_def mappers_of_def)

lemma convert_continues:
  assumes "locate_json E a = (evs, None, p)"
  shows "outcome_of (convert E a M) = outcome_of (pipeline E a M p)"
    and "opened (trace_of (convert E a M)) = [p]"
proof -
  have "trace_of (convert E a M) = banner a @ evs @ trace_of (pipeline E a M p)"
    and o: "outcome_of (convert E a M) = outcome_of (pipeline E a M p)"
    using assms by (simp_all add: convert_def outcome_of_def trace_of_def split: prod.splits)
  with locate_json_quiet [OF assms]
  show "opened (trace_of (convert E a M)) = [p]" by simp
  from o show "outcome_of (convert E a M) = outcome_of (pipeline E a M p)" .
qed

lemma example_tool_launched:
  "lower (snd (splitext (input_file example_args))) \<noteq> ''.json''"
  "override_mztab2m_json_file example_args \<or>
     \<not> path_exists timeout_env (input_file example_args @ ''.json'')"
  "override_mztab2m_json_file example_args \<or>
     \<not> path_exists failing_tool_env (input_file example_args @ ''.json'')"
  by (simp_all add: example_defs splitext_def rfind_def lower_def lower_char_def
      has_nondot.simps)

lemma interrupted_run:
  "outcome_of (convert interrupted_env example_args (mappers (\<lambda>c. 0))) =
     Raised (PyError ''KeyboardInterrupt'')"
  "printed (trace_of (convert interrupted_env example_args (mappers (\<lambda>c. 0)))) =
     [msg_disclaimer, msg_converting]"
  "opened (trace_of (convert interrupted_env example_args (mappers (\<lambda>c. 0)))) = []"
  "stages (trace_of (convert interrupted_env example_args (mappers (\<lambda>c. 0)))) = []"
  by (simp_all add: convert_def locate_json_def run_tool_def banner_def splitext_def rfind_def
      lower_def lower_char_def has_nondot.simps startswith_def outcome_of_def trace_of_def
      Let_def example_defs)

lemma example_run_trace_facts:
  "saved (trace_of (convert example_env example_args (mappers (\<lambda>c. 0)))) \<noteq> []"
  "calls (trace_of (convert example_env example_args (mappers (\<lambda>c. 0)))) \<noteq> []"
  "CreateStudyModel ''MTBLS1'' \<in> set (trace_of (convert example_env example_args (mappers (\<lambda>c. 0))))"
  by (simp_all add: model_defs example_defs)

section \<open>The mapper list\<close>

text \<open>
  Claim C3, as the specification states it: the list \<open>mappers\<close> holds exactly nine
  mapper units, one for each of the facets contacts, publications,
  controlled-vocabulary terms, samples, sample processing, software, databases, assay
  metadata and small-molecule summary. The list of the source has ten entries, and
  its classes are not these nine.
\<close>

theorem C3_counterexample:
  "length (mappers (\<lambda>c. ())) \<noteq> 9 \<and>
   map cls (mappers (\<lambda>c. ())) \<noteq>
     [MetadataContactMapper, MetadataPublicationMapper, MetadataCvMapper,
      MetadataSampleMapper, MetadataSampleProcessingMapper, MetadataSoftwareMapper,
      MetadataDatabaseMapper, MetadataAssayMapper, SmallMoleculeSummaryMapper]"
  by (simp add: mappers_def construct_def)

text \<open>
  Claim C3, amended: the list \<open>mappers\<close> holds exactly ten mapper units, one object
  each of ten different classes: the base-metadata mapper \<open>MetadataBaseMapper\<close>
  first, and after it the mappers of the nine facets in the order contacts,
  publications, controlled-vocabulary terms, samples, sample processing, software,
  databases, assay metadata, small-molecule summary. No run calls \<open>update\<close> more
  than ten times.
\<close>

theorem C3_ten_mapper_units:
  "map cls (mappers init) =
     [MetadataBaseMapper, MetadataContactMapper, MetadataPublicationMapper, MetadataCvMapper,
      MetadataSampleMapper, MetadataSampleProcessingMapper, MetadataSoftwareMapper,
      MetadataDatabaseMapper, MetadataAssayMapper, SmallMoleculeSummaryMapper] \<and>
   length (mappers init) = 10 \<and>
   distinct (map cls (mappers init)) \<and>
   distinct (map oid (mappers init)) \<and>
   length (calls (trace_of (convert E a (mappers init)))) \<le> 10"
proof -
  have "length (map fst (calls (trace_of (convert E a (mappers init))))) \<le> length (mappers init)"
    by (subst convert_calls) simp
  then show ?thesis by (simp add: mappers_def construct_def)
qed

section \<open>The order of the processing steps\<close>

text \<open>
  Claim C4. In every run, the processing steps that happen are an initial part of
  the sequence: read the JSON file, normalise the raw structure, build the source
  model, normalise the source model, create the destination skeleton, the mappers in
  the order of the list, serialize. So the raw structure is normalised before the
  source model is built, the source model is normalised before any mapper runs, the
  skeleton is created before the first mapper runs, and the serializer is called only
  after the last mapper: a run that serializes has gone through the whole sequence.
  The skeleton is created with the accession number given on the command line. The
  first mapper receives the source model that \<open>modify_mztab_model\<close> left, built
  from the structure that \<open>replace_null_string_with_none\<close> left, and the skeleton;
  every later mapper receives the two models as the mapper before it left them. So no
  mapper receives a source model that was not normalised.
\<close>

theorem C4_processing_order:
  "prefix (stages (trace_of (convert E a M))) (step_order M) \<and>
   (saved (trace_of (convert E a M)) \<noteq> [] \<longrightarrow>
      stages (trace_of (convert E a M)) = step_order M) \<and>
   (\<forall>acc. CreateStudyModel acc \<in> set (trace_of (convert E a M)) \<longrightarrow>
      acc = mtbls_accession_number a) \<and>
   (calls (trace_of (convert E a M)) \<noteq> [] \<longrightarrow>
      (\<exists>p j0 j1 s0 s d.
         opened (trace_of (convert E a M)) = [p] \<and>
         json_load E p = Inr j0 \<and>
         replace_null_string_with_none E j0 = Inr j1 \<and>
         model_validate E j1 = Inr s0 \<and>
         modify_mztab_model E s0 = Inr s \<and>
         create_metabolights_study_model E (mtbls_accession_number a) = Inr d \<and>
         hd (calls (trace_of (convert E a M))) = (hd M, s, d))) \<and>
   threaded E (calls (trace_of (convert E a M)))"
  using convert_stages [of E a M] convert_saved_stages [of E a M]
    convert_accession [of _ E a M] convert_first_call [of E a M] convert_threaded [of E a M]
  by blast

text \<open>
  The example run calls the mappers, creates the skeleton \<open>MTBLS1\<close> and
  serializes; its steps are the whole sequence.
\<close>

theorem C4_witness:
  "saved (trace_of (convert example_env example_args (mappers (\<lambda>c. 0)))) \<noteq> [] \<and>
   calls (trace_of (convert example_env example_args (mappers (\<lambda>c. 0)))) \<noteq> [] \<and>
   CreateStudyModel ''MTBLS1''
     \<in> set (trace_of (convert example_env example_args (mappers (\<lambda>c. 0)))) \<and>
   ''MTBLS1'' = mtbls_accession_number example_args \<and>
   stages (trace_of (convert example_env example_args (mappers (\<lambda>c. 0)))) =
     [StRead, StNormalizeJson, StValidate, StNormalizeModel, StCreate,
      StMapper MetadataBaseMapper, StMapper MetadataContactMapper,
      StMapper MetadataPublicationMapper, StMapper MetadataCvMapper,
      StMapper MetadataSampleMapper, StMapper MetadataSampleProcessingMapper,
      StMapper MetadataSoftwareMapper, StMapper MetadataDatabaseMapper,
      StMapper MetadataAssayMapper, StMapper SmallMoleculeSummaryMapper, StSerialize]"
proof -
  have "stages (trace_of (convert example_env example_args (mappers (\<lambda>c. 0)))) =
          step_order (mappers (\<lambda>c. 0::nat))"
    and "''MTBLS1'' = mtbls_accession_number example_args"
    using C4_processing_order [of example_env example_args "mappers (\<lambda>c. 0)"]
      example_run_trace_facts
    by blast+
  then show ?thesis
    using example_run_trace_facts by (simp add: step_order_def mappers_def construct_def)
qed

section \<open>The input file and the pre-conversion tool\<close>

text \<open>
  Claim C5. When the extension of the input file, in lower case, is \<open>.json\<close>, the
  run never launches the subprocess of the pre-conversion tool, and the one file it
  opens and reads as the JSON model is the input file itself.
\<close>

theorem C5_json_input_read_directly:
  assumes "lower (snd (splitext (input_file a))) = ''.json''"
  shows "tool_runs (trace_of (convert E a M)) = [] \<and>
         opened (trace_of (convert E a M)) = [input_file a]"
proof (cases rule: convert_cases [of E a M])
  case (ended evs out p)
  with locate_json_json [OF assms, of E] show ?thesis by simp
next
  case (piped evs p)
  with locate_json_json [OF assms, of E] show ?thesis by simp
qed

text \<open>The input \<open>data/study.JSON\<close> has such an extension.\<close>

theorem C5_witness:
  "lower (snd (splitext ''data/study.JSON'')) = ''.json'' \<and>
   tool_runs (trace_of (convert example_env (example_args\<lparr>input_file := ''data/study.JSON''\<rparr>)
     (mappers (\<lambda>c. 0)))) = [] \<and>
   opened (trace_of (convert example_env (example_args\<lparr>input_file := ''data/study.JSON''\<rparr>)
     (mappers (\<lambda>c. 0)))) = [''data/study.JSON'']"
proof -
  have ext: "lower (snd (splitext ''data/study.JSON'')) = ''.json''"
    by (simp add: splitext_def rfind_def lower_def lower_char_def has_nondot.simps)
  then have "lower (snd (splitext (input_file (example_args\<lparr>input_file := ''data/study.JSON''\<rparr>))))
      = ''.json''" by simp
  from C5_json_input_read_directly [OF this, of example_env "mappers (\<lambda>c. 0)"] ext
  show ?thesis by simp
qed

text \<open>
  Claim C10. When the extension of the input file, in lower case, is not
  \<open>.json\<close>, the only file a run reads the model from is the input path with
  \<open>.json\<close> appended. The run opens exactly that file when the file exists and the
  override option is false, and when the tool is launched and completes; a run whose
  tool step ends the run (a timeout, a non-zero exit status, any other exception,
  caught or not) opens no file. When the file exists and the override option is
  false, the subprocess of the tool is not launched and the file is read as it is.
\<close>

theorem C10_json_beside_input:
  assumes "lower (snd (splitext (input_file a))) \<noteq> ''.json''"
  shows "opened (trace_of (convert E a M)) =
           (if \<not> override_mztab2m_json_file a \<and> path_exists E (input_file a @ ''.json'')
            then [input_file a @ ''.json'']
            else case subprocess_run E (tool_argv E a) 120 of
                   CompletedProcess out err \<Rightarrow> [input_file a @ ''.json'']
                 | _ \<Rightarrow> []) \<and>
         (\<not> override_mztab2m_json_file a \<and> path_exists E (input_file a @ ''.json'') \<longrightarrow>
            tool_runs (trace_of (convert E a M)) = [] \<and>
            opened (trace_of (convert E a M)) = [input_file a @ ''.json''])"
proof (cases "\<not> override_mztab2m_json_file a \<and> path_exists E (input_file a @ ''.json'')")
  case True
  then have l: "locate_json E a =
       ([Print ((input_file a @ ''.json'') @ '' file exists, it will be used as an input.'')],
        None, input_file a @ ''.json'')"
    using locate_json_cached [OF assms, of E] by simp
  have "trace_of (convert E a M) =
      banner a @
      [Print ((input_file a @ ''.json'') @ '' file exists, it will be used as an input.'')] @
      trace_of (pipeline E a M (input_file a @ ''.json''))"
    using l by (simp add: convert_def trace_of_def split: prod.splits)
  then have "tool_runs (trace_of (convert E a M)) = []" by simp
  with True convert_continues(2) [OF l, of M] show ?thesis by simp
next
  case False
  then have launched:
    "override_mztab2m_json_file a \<or> \<not> path_exists E (input_file a @ ''.json'')" by simp
  note l = locate_json_tool [OF assms launched]
  have q: "opened (fst (run_tool E a)) = []" by (rule run_tool_quiet)
  have "opened (trace_of (convert E a M)) =
      (case subprocess_run E (tool_argv E a) 120 of
         CompletedProcess out err \<Rightarrow> [input_file a @ ''.json'']
       | _ \<Rightarrow> [])"
  proof (cases "subprocess_run E (tool_argv E a) 120")
    case (CompletedProcess out err)
    from l run_tool_completed [OF CompletedProcess]
    have "locate_json E a = (fst (run_tool E a), None, input_file a @ ''.json'')" by simp
    from convert_continues(2) [OF this, of M] CompletedProcess show ?thesis by simp
  next
    case (TimeoutExpired out err)
    from l run_tool_timeout [OF TimeoutExpired]
    have "locate_json E a = (fst (run_tool E a), Some (SystemExit 1), input_file a @ ''.json'')"
      by simp
    from convert_exit(2) [OF this, of M] q TimeoutExpired show ?thesis by simp
  next
    case (CalledProcessError out err)
    from l run_tool_failed [OF CalledProcessError]
    have "locate_json E a = (fst (run_tool E a), Some (SystemExit 1), input_file a @ ''.json'')"
      by simp
    from convert_exit(2) [OF this, of M] q CalledProcessError show ?thesis by simp
  next
    case (OtherException msg)
    from l run_tool_other [OF OtherException]
    have "locate_json E a = (fst (run_tool E a), Some (SystemExit 1), input_file a @ ''.json'')"
      by simp
    from convert_exit(2) [OF this, of M] q OtherException show ?thesis by simp
  next
    case (OtherBaseException e)
    from l run_tool_uncaught [OF OtherBaseException]
    have "locate_json E a = (fst (run_tool E a), Some (Raised e), input_file a @ ''.json'')"
      by simp
    from convert_exit(2) [OF this, of M] q OtherBaseException show ?thesis by simp
  qed
  with False show ?thesis by auto
qed

text \<open>
  The input \<open>study.mzTab\<close>, with \<open>study.mzTab.json\<close> present and the override
  option false.
\<close>

theorem C10_witness:
  "lower (snd (splitext (input_file example_args))) \<noteq> ''.json'' \<and>
   \<not> override_mztab2m_json_file example_args \<and>
   path_exists cached_env (input_file example_args @ ''.json'') \<and>
   tool_runs (trace_of (convert cached_env example_args (mappers (\<lambda>c. 0)))) = [] \<and>
   opened (trace_of (convert cached_env example_args (mappers (\<lambda>c. 0)))) = [''study.mzTab.json'']"
proof -
  have ext: "lower (snd (splitext (input_file example_args))) \<noteq> ''.json''"
    by (simp add: example_args_def splitext_def rfind_def lower_def lower_char_def
        has_nondot.simps)
  have cached: "\<not> override_mztab2m_json_file example_args \<and>
      path_exists cached_env (input_file example_args @ ''.json'')"
    by (simp add: example_args_def cached_env_def example_env_def)
  from C10_json_beside_input [OF ext, of cached_env "mappers (\<lambda>c. 0)"] cached
  have "tool_runs (trace_of (convert cached_env example_args (mappers (\<lambda>c. 0)))) = [] \<and>
      opened (trace_of (convert cached_env example_args (mappers (\<lambda>c. 0)))) =
        [input_file example_args @ ''.json'']"
    by blast
  moreover have "input_file example_args @ ''.json'' = ''study.mzTab.json''"
    by (simp add: example_args_def)
  ultimately show ?thesis using ext cached by simp
qed

section \<open>Failures of the pre-conversion tool\<close>




text \<open>
  Claim C7, as the specification states it: every failure of the tool is reported
  with the output captured from the tool. In the run whose tool times out, the
  captured stdout and stderr are not printed: the lines printed are the disclaimer,
  the announcement and the timeout message.
\<close>

theorem C7_counterexample:
  "subprocess_run timeout_env (tool_argv timeout_env example_args) 120 =
     TimeoutExpired ''partial'' ''diagnostic'' \<and>
   outcome_of (convert timeout_env example_args (mappers (\<lambda>c. 0))) = SystemExit 1 \<and>
   printed (trace_of (convert timeout_env example_args (mappers (\<lambda>c. 0)))) =
     [msg_disclaimer, msg_converting, msg_timed_out] \<and>
   ''diagnostic'' \<notin> set (printed (trace_of (convert timeout_env example_args (mappers (\<lambda>c. 0))))) \<and>
   ''partial'' \<notin> set (printed (trace_of (convert timeout_env example_args (mappers (\<lambda>c. 0)))))"
proof -
  have p: "printed (trace_of (convert timeout_env example_args (mappers (\<lambda>c. 0)))) =
     [msg_disclaimer, msg_converting, msg_timed_out]"
    by (simp add: convert_def locate_json_def run_tool_def banner_def splitext_def rfind_def
        lower_def lower_char_def has_nondot.simps startswith_def trace_of_def Let_def
        example_defs)
  have "''diagnostic'' \<notin> set [msg_disclaimer, msg_converting, msg_timed_out]"
    and "''partial'' \<notin> set [msg_disclaimer, msg_converting, msg_timed_out]"
    by (simp_all add: msg_disclaimer_def msg_converting_def msg_timed_out_def)
  with p show ?thesis by (simp add: model_defs example_defs)
qed

text \<open>
  Claim C7, amended: when the tool is launched, every failure of
  \<open>subprocess.run\<close> that the handlers of the \<open>try\<close> statement catch (a non-zero
  exit status, which is also what the shell reports when the container engine
  cannot be run; a timeout; any other exception that is an \<open>Exception\<close>) ends the
  run with the exit status 1 before any file is read or any mapper is called, and a
  tool that completes does not. What is printed after the announcement depends on
  the failure: for a non-zero exit status the failure message and the captured
  stderr; for a timeout only the timeout message; for another \<open>Exception\<close> the
  failure message and the text of the exception. An exception that is not an
  \<open>Exception\<close> (a \<open>KeyboardInterrupt\<close> during the wait) is not caught: it leaves
  \<open>convert\<close> itself, with no failure message and no exit status of the tool step,
  and also then no file is read and no mapper is called.
\<close>

theorem C7_tool_failure_is_fatal:
  assumes "lower (snd (splitext (input_file a))) \<noteq> ''.json''"
      and "override_mztab2m_json_file a \<or> \<not> path_exists E (input_file a @ ''.json'')"
  shows "case subprocess_run E (tool_argv E a) 120 of
           CompletedProcess out err \<Rightarrow> outcome_of (convert E a M) \<noteq> SystemExit 1
         | TimeoutExpired out err \<Rightarrow>
             outcome_of (convert E a M) = SystemExit 1 \<and>
             trace_of (convert E a M) =
               banner a @
               [Print msg_converting, SubprocessRun (tool_argv E a) 120, Print msg_timed_out]
         | CalledProcessError out err \<Rightarrow>
             outcome_of (convert E a M) = SystemExit 1 \<and>
             trace_of (convert E a M) =
               banner a @
               [Print msg_converting, SubprocessRun (tool_argv E a) 120, Print msg_failed,
                Print err]
         | OtherException msg \<Rightarrow>
             outcome_of (convert E a M) = SystemExit 1 \<and>
             trace_of (convert E a M) =
               banner a @
               [Print msg_converting, SubprocessRun (tool_argv E a) 120, Print msg_failed,
                Print msg]
         | OtherBaseException e \<Rightarrow>
             outcome_of (convert E a M) = Raised e \<and>
             trace_of (convert E a M) =
               banner a @ [Print msg_converting, SubprocessRun (tool_argv E a) 120]"
proof (cases "subprocess_run E (tool_argv E a) 120")
  case (CompletedProcess out err)
  from locate_json_tool [OF assms] run_tool_completed [OF CompletedProcess]
  have "locate_json E a = (fst (run_tool E a), None, input_file a @ ''.json'')" by simp
  from convert_continues(1) [OF this, of M]
    pipeline_no_exit [of E a M "input_file a @ ''.json''" 1] CompletedProcess
  show ?thesis by simp
next
  case (TimeoutExpired out err)
  from locate_json_tool [OF assms] run_tool_timeout [OF TimeoutExpired]
  have "locate_json E a =
      ([Print msg_converting, SubprocessRun (tool_argv E a) 120, Print msg_timed_out],
       Some (SystemExit 1), input_file a @ ''.json'')"
    by simp
  from convert_exit [OF this, of M] TimeoutExpired show ?thesis by simp
next
  case (CalledProcessError out err)
  from locate_json_tool [OF assms] run_tool_failed [OF CalledProcessError]
  have "locate_json E a =
      ([Print msg_converting, SubprocessRun (tool_argv E a) 120, Print msg_failed, Print err],
       Some (SystemExit 1), input_file a @ ''.json'')"
    by simp
  from convert_exit [OF this, of M] CalledProcessError show ?thesis by simp
next
  case (OtherException msg)
  from locate_json_tool [OF assms] run_tool_other [OF OtherException]
  have "locate_json E a =
      ([Print msg_converting, SubprocessRun (tool_argv E a) 120, Print msg_failed, Print msg],
       Some (SystemExit 1), input_file a @ ''.json'')"
    by simp
  from convert_exit [OF this, of M] OtherException show ?thesis by simp
next
  case (OtherBaseException e)
  from locate_json_tool [OF assms] run_tool_uncaught [OF OtherBaseException]
  have "locate_json E a =
      ([Print msg_converting, SubprocessRun (tool_argv E a) 120],
       Some (Raised e), input_file a @ ''.json'')"
    by simp
  from convert_exit [OF this, of M] OtherBaseException show ?thesis by simp
qed

text \<open>The example whose tool exits with a non-zero status and \<open>diagnostic\<close> on stderr.\<close>

theorem C7_witness:
  "lower (snd (splitext (input_file example_args))) \<noteq> ''.json'' \<and>
   \<not> path_exists failing_tool_env (input_file example_args @ ''.json'') \<and>
   subprocess_run failing_tool_env (tool_argv failing_tool_env example_args) 120 =
     CalledProcessError ''partial'' ''diagnostic'' \<and>
   outcome_of (convert failing_tool_env example_args (mappers (\<lambda>c. 0))) = SystemExit 1 \<and>
   stages (trace_of (convert failing_tool_env example_args (mappers (\<lambda>c. 0)))) = [] \<and>
   printed (trace_of (convert failing_tool_env example_args (mappers (\<lambda>c. 0)))) =
     [msg_disclaimer, msg_converting, msg_failed, ''diagnostic'']"
proof -
  have t: "subprocess_run failing_tool_env (tool_argv failing_tool_env example_args) 120 =
     CalledProcessError ''partial'' ''diagnostic''"
    by (simp add: failing_tool_env_def example_env_def)
  have e: "\<not> path_exists failing_tool_env (input_file example_args @ ''.json'')"
    by (simp add: failing_tool_env_def example_env_def)
  from C7_tool_failure_is_fatal [OF example_tool_launched(1,3), of "mappers (\<lambda>c. 0)"] t
  have "outcome_of (convert failing_tool_env example_args (mappers (\<lambda>c. 0))) = SystemExit 1"
    and "trace_of (convert failing_tool_env example_args (mappers (\<lambda>c. 0))) =
      banner example_args @
      [Print msg_converting,
       SubprocessRun (tool_argv failing_tool_env example_args) 120, Print msg_failed,
       Print ''diagnostic'']"
    by simp_all
  with example_tool_launched(1) e t show ?thesis
    by (simp add: banner_def example_args_def startswith_def)
qed

section \<open>Two runs in one process\<close>

lemma run_mappers_attrs:
  "run_mappers E M s d = (r, M', s', d', evs) \<Longrightarrow>
     map attrs M' =
       map (\<lambda>(m, s, d). fst (snd (update E (cls m) (attrs m) s d))) (calls evs) @
       map attrs (drop (length (calls evs)) M)"
  by (induction M arbitrary: s d r M' s' d' evs)
     (auto split: prod.splits option.splits)

lemma convert_attrs:
  "map attrs (mappers_of (convert E a M)) =
     map (\<lambda>(m, s, d). fst (snd (update E (cls m) (attrs m) s d)))
       (calls (trace_of (convert E a M))) @
     map attrs (drop (length (calls (trace_of (convert E a M)))) M)"
proof (cases rule: convert_cases [of E a M])
  case (ended evs out p)
  with locate_json_quiet [OF ended(1)] show ?thesis by simp
next
  case (piped evs p)
  have c: "calls (trace_of (convert E a M)) = calls (trace_of (pipeline E a M p))"
    using piped(3) locate_json_quiet [OF piped(1)] by simp
  have "map attrs (mappers_of (pipeline E a M p)) =
     map (\<lambda>(m, s, d). fst (snd (update E (cls m) (attrs m) s d)))
       (calls (trace_of (pipeline E a M p))) @
     map attrs (drop (length (calls (trace_of (pipeline E a M p)))) M)"
  proof (cases rule: pipeline_cases [of E a p M])
    case (unprepared pre e)
    with prepare_silent(2) [of E a p] show ?thesis by (simp add: trace_of_def mappers_of_def)
  next
    case (looped pre s d r M' s' d' evs)
    from prepare_silent(2) [of E a p] looped(1) have "calls pre = []" by simp
    with looped run_mappers_attrs [OF looped(2)] show ?thesis
      by (cases r) (simp_all add: trace_of_def mappers_of_def)
  qed
  with c piped(4) show ?thesis by simp
qed

lemma example_run_calls:
  "map (\<lambda>c. attrs (fst c))
     (calls (trace_of (convert example_env example_args (mappers (\<lambda>c. 0))))) =
     [0, 0, 0, 0, 0, 0, 0, 0, 0, 0]"
  "map (\<lambda>(m, s, d). fst (snd (update example_env (cls m) (attrs m) s d)))
     (calls (trace_of (convert example_env example_args (mappers (\<lambda>c. 0))))) =
     [1, 1, 1, 1, 1, 1, 1, 1, 1, 1]"
  "length (calls (trace_of (convert example_env example_args (mappers (\<lambda>c. 0))))) = 10"
  by (simp_all add: model_defs example_defs)

text \<open>
  Claim C9. The mapper objects are built once, when the module is imported: one
  object for each entry of the list, with the attribute state its constructor
  gives. A run of \<open>convert\<close> builds no object. It leaves the list with the same
  objects of the same classes in the same order, each with the attribute state its
  \<open>update\<close> left (an object that was not called keeps its state). The next run in
  the process calls \<open>update\<close> on exactly these objects, with the attribute state
  the run before left.
\<close>

theorem C9_mapper_objects_reused:
  "map oid (mappers init) = [0, 1, 2, 3, 4, 5, 6, 7, 8, 9] \<and>
   map attrs (mappers init) = map init (map cls (mappers init)) \<and>
   map oid (mappers_of (convert E a M)) = map oid M \<and>
   map cls (mappers_of (convert E a M)) = map cls M \<and>
   map attrs (mappers_of (convert E a M)) =
     map (\<lambda>(m, s, d). fst (snd (update E (cls m) (attrs m) s d)))
       (calls (trace_of (convert E a M))) @
     map attrs (drop (length (calls (trace_of (convert E a M)))) M) \<and>
   map fst (calls (trace_of (convert E' a' (mappers_of (convert E a M))))) =
     take (length (calls (trace_of (convert E' a' (mappers_of (convert E a M))))))
       (mappers_of (convert E a M))"
  using convert_same_objects [of E a M] convert_attrs [of E a M]
    convert_calls [of E' a' "mappers_of (convert E a M)"]
  by (simp add: mappers_def construct_def)

text \<open>
  In the example world the first run finds every counter at 0, and the second run
  finds every counter at 1.
\<close>

theorem C9_witness:
  "map (\<lambda>c. attrs (fst c))
     (calls (trace_of (convert example_env example_args (mappers (\<lambda>c. 0))))) =
     [0, 0, 0, 0, 0, 0, 0, 0, 0, 0] \<and>
   map (\<lambda>c. attrs (fst c))
     (calls (trace_of (convert example_env example_args
        (mappers_of (convert example_env example_args (mappers (\<lambda>c. 0))))))) =
     [1, 1, 1, 1, 1, 1, 1, 1, 1, 1]"
proof -
  let ?M1 = "mappers_of (convert example_env example_args (mappers (\<lambda>c. 0)))"
  have M1: "?M1 = mappers (\<lambda>c. 1)"
    by (simp add: model_defs example_defs)
  have len: "length (calls (trace_of (convert example_env example_args (mappers (\<lambda>c. 1))))) = 10"
    by (simp add: model_defs example_defs)
  from C9_mapper_objects_reused [of "\<lambda>c. 0::nat" example_env example_args
      "mappers (\<lambda>c. 0)" example_env example_args]
  have "map fst (calls (trace_of (convert example_env example_args ?M1))) =
      take (length (calls (trace_of (convert example_env example_args ?M1)))) ?M1"
    by blast
  with M1 len have "map fst (calls (trace_of (convert example_env example_args ?M1))) =
      mappers (\<lambda>c. 1)"
    by (simp add: mappers_def)
  then have "map attrs (map fst (calls (trace_of (convert example_env example_args ?M1)))) =
      map attrs (mappers (\<lambda>c. 1::nat))" by simp
  with example_run_calls(1) show ?thesis by (simp add: comp_def mappers_def construct_def)
qed

end
